theory Spec2Isabelle
  imports Complex_Main "HOL-Library.Multiset"
begin

section \<open>JavaScript and Node helpers used by the server\<close>

text \<open>
  The server part of \<^verbatim>\<open>app.js\<close> (Express, Mongoose, Multer, music-metadata, fs) is
  embedded here. Strings are \<^typ>\<open>string\<close>. A JavaScript value that may be
  \<^verbatim>\<open>undefined\<close> is an \<^typ>\<open>'a option\<close>. The number of seconds that the metadata
  extractor reports is a finite number, modelled by its exact value as a \<^typ>\<open>rat\<close>.
  The libraries are modelled by what they are documented to do; the handlers, the file
  filter and the naming of the stored file follow \<^verbatim>\<open>app.js\<close> line by line.
\<close>

text \<open>\<^verbatim>\<open>x || y\<close> on strings: the empty string and \<^verbatim>\<open>undefined\<close> are falsy.\<close>

definition or_string :: "string option \<Rightarrow> string \<Rightarrow> string" where
  "or_string x y = (case x of None \<Rightarrow> y | Some v \<Rightarrow> if v = [] then y else v)"

text \<open>\<^verbatim>\<open>x || 0\<close> on numbers: \<^verbatim>\<open>undefined\<close> and \<^verbatim>\<open>0\<close> are falsy.\<close>

definition or_number :: "rat option \<Rightarrow> rat \<Rightarrow> rat" where
  "or_number x y = (case x of None \<Rightarrow> y | Some v \<Rightarrow> if v = 0 then y else v)"

text \<open>\<^verbatim>\<open>String.prototype.toLowerCase\<close>, on the ASCII letters.\<close>

definition toLowerCase_char :: "char \<Rightarrow> char" where
  "toLowerCase_char c =
     (case map_of (zip ''ABCDEFGHIJKLMNOPQRSTUVWXYZ'' ''abcdefghijklmnopqrstuvwxyz'') c of
        None \<Rightarrow> c
      | Some l \<Rightarrow> l)"

definition toLowerCase :: "string \<Rightarrow> string" where
  "toLowerCase s = map toLowerCase_char s"

text \<open>\<^verbatim>\<open>String.prototype.startsWith\<close>.\<close>

definition startsWith :: "string \<Rightarrow> string \<Rightarrow> bool" where
  "startsWith s p = (take (length p) s = p)"

text \<open>A regular expression that is a plain word, tested anywhere in the string.\<close>

fun contains :: "string \<Rightarrow> string \<Rightarrow> bool" where
  "contains [] w = (w = [])"
| "contains (c # cs) w = (startsWith (c # cs) w \<or> contains cs w)"

text \<open>
  \<^verbatim>\<open>/mp3|wav|ogg|m4a/.test(s)\<close>: the expression has no anchors and no flags, so it
  looks for one of the four words, as they are written, anywhere in the string.
\<close>

definition allowedTypes_test :: "string \<Rightarrow> bool" where
  "allowedTypes_test s =
     (contains s ''mp3'' \<or> contains s ''wav'' \<or> contains s ''ogg'' \<or> contains s ''m4a'')"

text \<open>
  \<^verbatim>\<open>s.replace(/\.[^/.]+$/, "")\<close>: the leftmost dot that is followed, up to the end of
  the string, by one or more characters other than a slash and a dot, is removed with
  all that follows it.
\<close>

fun replace_extension :: "string \<Rightarrow> string" where
  "replace_extension [] = []"
| "replace_extension (c # cs) =
     (if c = CHR ''.'' \<and> cs \<noteq> [] \<and> list_all (\<lambda>d. d \<noteq> CHR ''/'' \<and> d \<noteq> CHR ''.'') cs
      then []
      else c # replace_extension cs)"

text \<open>\<^verbatim>\<open>s.replace(/^\//, '')\<close>: one leading slash is removed.\<close>

fun replace_leading_slash :: "string \<Rightarrow> string" where
  "replace_leading_slash [] = []"
| "replace_leading_slash (c # cs) = (if c = CHR ''/'' then cs else c # cs)"

text \<open>
  Node's \<^verbatim>\<open>path.extname\<close> (POSIX): trailing slashes are ignored, the last path
  segment is taken, and the result runs from its last dot to its end; it is empty when
  the segment has no dot, when its only dot is its first character, and for the
  segment \<^verbatim>\<open>..\<close>.
\<close>

definition last_segment :: "string \<Rightarrow> string" where
  "last_segment p =
     rev (takeWhile (\<lambda>c. c \<noteq> CHR ''/'') (dropWhile (\<lambda>c. c = CHR ''/'') (rev p)))"

definition extname :: "string \<Rightarrow> string" where
  "extname p =
     (let b = last_segment p;
          e = rev (takeWhile (\<lambda>c. c \<noteq> CHR ''.'') (rev b))
      in if list_all (\<lambda>c. c \<noteq> CHR ''.'') b then []
         else if Suc (length e) = length b then []
         else if b = ''..'' then []
         else CHR ''.'' # e)"

text \<open>
  \<^verbatim>\<open>path.join(__dirname, ...)\<close>: paths are kept relative to the server directory
  (which is also the directory the server runs in, so that Multer's \<^verbatim>\<open>uploads/\<close>
  is the same directory), and the segments are joined by slashes. Normalisation is
  left out: it is the identity on \<^verbatim>\<open>uploads\<close> followed by a stored file name.
\<close>

fun path_join_dirname :: "string list \<Rightarrow> string" where
  "path_join_dirname [] = []"
| "path_join_dirname [a] = a"
| "path_join_dirname (a # b # cs) = a @ ''/'' @ path_join_dirname (b # cs)"

text \<open>
  \<^verbatim>\<open>Number.prototype.toString\<close> on an integer, in decimal (JavaScript prints an
  integral number of magnitude below \<^verbatim>\<open>1e21\<close> this way).
\<close>

fun nat_toString :: "nat \<Rightarrow> string" where
  "nat_toString n =
     (if n < 10 then [''0123456789'' ! n]
      else nat_toString (n div 10) @ [''0123456789'' ! (n mod 10)])"

declare nat_toString.simps [simp del]

definition int_toString :: "int \<Rightarrow> string" where
  "int_toString i = (if i < 0 then CHR ''-'' # nat_toString (nat (- i)) else nat_toString (nat i))"

text \<open>\<^verbatim>\<open>String.prototype.padStart\<close> with a one-character filler.\<close>

definition padStart :: "string \<Rightarrow> nat \<Rightarrow> char \<Rightarrow> string" where
  "padStart s n c = replicate (n - length s) c @ s"

text \<open>
  The remainder operator \<^verbatim>\<open>%\<close> of JavaScript: the quotient is truncated towards
  zero, so the result has the sign of the dividend.
\<close>

definition js_rem :: "rat \<Rightarrow> rat \<Rightarrow> rat" where
  "js_rem a b = a - b * of_int (if a / b < 0 then \<lceil>a / b\<rceil> else \<lfloor>a / b\<rfloor>)"

text \<open>
  The duration string of the upload handler:
  \<^verbatim>\<open>`${Math.floor(d / 60)}:${Math.floor(d % 60).toString().padStart(2, '0')}`\<close>.
  The arithmetic is exact here. JavaScript rounds the quotient \<^verbatim>\<open>d / 60\<close> to a double
  before it takes the floor, which does not change the floor for a duration an audio
  file can have (not negative, below \<open>2\<^sup>5\<^sup>3\<close> minutes); \<^verbatim>\<open>%\<close> is exact on
  doubles.
\<close>

definition format_duration :: "rat \<Rightarrow> string" where
  "format_duration d =
     int_toString \<lfloor>d / 60\<rfloor> @ '':'' @ padStart (int_toString \<lfloor>js_rem d 60\<rfloor>) 2 (CHR ''0'')"

section \<open>The data model\<close>

text \<open>
  An \<^verbatim>\<open>ObjectId\<close> is an opaque 12-byte value; only equality is used on it, and it
  is a number here.
\<close>

type_synonym ObjectId = nat

text \<open>
  A string that Mongoose has to cast to an \<^verbatim>\<open>ObjectId\<close> (a route parameter, the
  \<^verbatim>\<open>playlistId\<close> field of a form): the cast is Mongoose's, so the input carries
  its outcome, either the identifier or the fact that the string is not one.
\<close>

datatype id_string = Malformed string | WellFormed ObjectId

text \<open>\<^verbatim>\<open>playlistSchema\<close>: \<^verbatim>\<open>createdAt\<close> is a date, in milliseconds since the epoch.\<close>

record playlist =
  playlist_id :: ObjectId
  name :: string
  creator :: "string option"
  createdAt :: int

text \<open>\<^verbatim>\<open>songSchema\<close>: only \<^verbatim>\<open>title\<close> and \<^verbatim>\<open>playlistId\<close> are required.\<close>

record song =
  song_id :: ObjectId
  title :: string
  artist :: "string option"
  duration :: "string option"
  audioFile :: "string option"
  playlistId :: ObjectId

text \<open>
  A file of the server's directory tree. \<^verbatim>\<open>fs.unlinkSync\<close> throws on an entry that
  cannot be removed (a directory, a file that is busy or protected); \<open>removable\<close>
  says whether it can.
\<close>

record file_entry =
  content :: "nat list"
  removable :: bool

type_synonym filesystem = "string \<rightharpoonup> file_entry"

text \<open>
  The state the handlers work on: the two collections of the database (documents in
  the store's native order), whether the store answers (the connection to MongoDB is
  up), and the files, by path relative to the server directory.
\<close>

record state =
  Playlist :: "playlist list"
  Song :: "song list"
  connected :: bool
  files :: filesystem

text \<open>
  The errors of the collaborators, and the body of a response: the JSON values that the
  handlers send (\<open>ErrorObject e\<close> is \<^verbatim>\<open>{ error: e.message }\<close>), and the page with
  which the default error handler of Express answers an error of a middleware.
\<close>

datatype error =
    Message string
  | ValidationError "string list"
  | CastError string
  | StoreError
  | UnlinkError string

datatype body =
    PlaylistArray "playlist list"
  | SongDocument song
  | PlaylistWithSongs playlist "song list"
  | MessageObject string
  | ErrorObject error
  | ErrorPage error

datatype response = Response (status: nat) (body: body)

section \<open>The record store (Mongoose)\<close>

text \<open>
  A query fails with \<open>StoreError\<close> when the store does not answer. An identifier
  given as a string is cast first, and a string that is none fails the query with
  \<open>CastError\<close>.
\<close>

definition cast_id :: "string \<Rightarrow> id_string \<Rightarrow> error + ObjectId" where
  "cast_id path i = (case i of Malformed _ \<Rightarrow> Inl (CastError path) | WellFormed oid \<Rightarrow> Inr oid)"

text \<open>\<^verbatim>\<open>Playlist.find().sort({ createdAt: -1 })\<close>.\<close>

definition Playlist_find_sorted :: "state \<Rightarrow> error + playlist list" where
  "Playlist_find_sorted s =
     (if connected s then Inr (rev (sort_key createdAt (Playlist s))) else Inl StoreError)"

text \<open>\<^verbatim>\<open>Playlist.findById(id)\<close>.\<close>

definition Playlist_findById :: "id_string \<Rightarrow> state \<Rightarrow> error + playlist option" where
  "Playlist_findById i s =
     (case cast_id ''_id'' i of
        Inl e \<Rightarrow> Inl e
      | Inr oid \<Rightarrow>
          if connected s then Inr (find (\<lambda>p. playlist_id p = oid) (Playlist s))
          else Inl StoreError)"

text \<open>
  \<^verbatim>\<open>Playlist.findByIdAndDelete(id)\<close>: the document found is removed and returned.
\<close>

definition Playlist_findByIdAndDelete ::
  "id_string \<Rightarrow> state \<Rightarrow> error + (playlist option \<times> state)" where
  "Playlist_findByIdAndDelete i s =
     (case cast_id ''_id'' i of
        Inl e \<Rightarrow> Inl e
      | Inr oid \<Rightarrow>
          if connected s then
            (case find (\<lambda>p. playlist_id p = oid) (Playlist s) of
               None \<Rightarrow> Inr (None, s)
             | Some p \<Rightarrow> Inr (Some p, s\<lparr>Playlist := remove1 p (Playlist s)\<rparr>))
          else Inl StoreError)"

text \<open>\<^verbatim>\<open>Song.find({ playlistId: id })\<close>.\<close>

definition Song_find :: "id_string \<Rightarrow> state \<Rightarrow> error + song list" where
  "Song_find i s =
     (case cast_id ''playlistId'' i of
        Inl e \<Rightarrow> Inl e
      | Inr oid \<Rightarrow>
          if connected s then Inr (filter (\<lambda>x. playlistId x = oid) (Song s))
          else Inl StoreError)"

text \<open>\<^verbatim>\<open>Song.deleteMany({ playlistId: id })\<close>.\<close>

definition Song_deleteMany :: "id_string \<Rightarrow> state \<Rightarrow> error + state" where
  "Song_deleteMany i s =
     (case cast_id ''playlistId'' i of
        Inl e \<Rightarrow> Inl e
      | Inr oid \<Rightarrow>
          if connected s then Inr (s\<lparr>Song := filter (\<lambda>x. playlistId x \<noteq> oid) (Song s)\<rparr>)
          else Inl StoreError)"

text \<open>
  \<^verbatim>\<open>new Song({...})\<close> followed by \<^verbatim>\<open>song.save()\<close>. The document is validated
  first: \<^verbatim>\<open>title\<close> is required (an empty string does not count), and
  \<^verbatim>\<open>playlistId\<close> is required and must cast to an \<^verbatim>\<open>ObjectId\<close>. Then it is
  inserted; the store refuses a second document with the same \<^verbatim>\<open>_id\<close>.
\<close>

definition Song_invalid_paths :: "string \<Rightarrow> id_string option \<Rightarrow> string list" where
  "Song_invalid_paths t pid =
     (if t = [] then [''title''] else []) @
     (case pid of
        None \<Rightarrow> [''playlistId'']
      | Some (Malformed _) \<Rightarrow> [''playlistId'']
      | Some (WellFormed _) \<Rightarrow> [])"

definition Song_save ::
  "ObjectId \<Rightarrow> string \<Rightarrow> string \<Rightarrow> string \<Rightarrow> string \<Rightarrow> id_string option \<Rightarrow> state
     \<Rightarrow> error + (song \<times> state)" where
  "Song_save new_id t a d f pid s =
     (case pid of
        Some (WellFormed oid) \<Rightarrow>
          if t = [] then Inl (ValidationError (Song_invalid_paths t pid))
          else if \<not> connected s then Inl StoreError
          else if list_ex (\<lambda>x. song_id x = new_id) (Song s) then Inl StoreError
          else
            (let doc = \<lparr>song_id = new_id, title = t, artist = Some a, duration = Some d,
                        audioFile = Some f, playlistId = oid\<rparr>
             in Inr (doc, s\<lparr>Song := Song s @ [doc]\<rparr>))
      | _ \<Rightarrow> Inl (ValidationError (Song_invalid_paths t pid)))"

section \<open>The blob store (Multer and fs)\<close>

text \<open>\<^verbatim>\<open>fs.existsSync\<close> and \<^verbatim>\<open>fs.unlinkSync\<close>.\<close>

definition existsSync :: "string \<Rightarrow> filesystem \<Rightarrow> bool" where
  "existsSync p fs = (fs p \<noteq> None)"

definition unlinkSync :: "string \<Rightarrow> filesystem \<Rightarrow> error + filesystem" where
  "unlinkSync p fs =
     (case fs p of
        None \<Rightarrow> Inl (UnlinkError p)
      | Some e \<Rightarrow> if removable e then Inr (fs(p := None)) else Inl (UnlinkError p))"

text \<open>
  The file part of a multipart request (its bytes as a list of numbers), and the file
  that Multer hands on to the handler.
\<close>

record upload_part =
  originalname :: string
  mimetype :: string
  bytes :: "nat list"

record stored_file =
  file_originalname :: string
  filename :: string

text \<open>
  What a request brings from outside: the values of \<^verbatim>\<open>Date.now()\<close> and of
  \<^verbatim>\<open>Math.round(Math.random() * 1E9)\<close> that name the stored file, the \<^verbatim>\<open>_id\<close>
  that Mongoose generates for a new document, and the metadata extractor, a function
  of the file's bytes that throws (\<open>Inl\<close>, with the message) or returns the tags
  (\<^verbatim>\<open>common.title\<close>, \<^verbatim>\<open>common.artist\<close> and \<^verbatim>\<open>format.duration\<close>, each of which may
  be missing).
\<close>

record metadata =
  common_title :: "string option"
  common_artist :: "string option"
  format_duration_seconds :: "rat option"

record environment =
  Date_now :: nat
  Math_random_1E9 :: nat
  generated_id :: ObjectId
  parse :: "nat list \<Rightarrow> string + metadata"

text \<open>The \<^verbatim>\<open>fileFilter\<close> of the Multer configuration.\<close>

definition fileFilter :: "upload_part \<Rightarrow> bool" where
  "fileFilter file =
     (let ext = allowedTypes_test (toLowerCase (extname (originalname file)));
          mime = allowedTypes_test (mimetype file) \<or> startsWith (mimetype file) ''audio/''
      in mime \<and> ext)"

text \<open>The \<^verbatim>\<open>filename\<close> function of the disk storage.\<close>

definition storage_filename :: "environment \<Rightarrow> upload_part \<Rightarrow> string" where
  "storage_filename env file =
     (let uniqueSuffix = nat_toString (Date_now env) @ ''-'' @ nat_toString (Math_random_1E9 env)
      in uniqueSuffix @ extname (originalname file))"

definition fileSize_limit :: nat where
  "fileSize_limit = 10 * 1024 * 1024"

text \<open>
  \<^verbatim>\<open>upload.single('audioFile')\<close>: a request without the file part goes on with no
  file; a file that the filter refuses, or that is larger than the limit, ends the
  request with an error and leaves nothing on disk; otherwise the bytes are written to
  \<^verbatim>\<open>uploads/\<close> under the generated name.
\<close>

definition upload_single ::
  "environment \<Rightarrow> upload_part option \<Rightarrow> filesystem \<Rightarrow> error + (stored_file option \<times> filesystem)" where
  "upload_single env part fs =
     (case part of
        None \<Rightarrow> Inr (None, fs)
      | Some file \<Rightarrow>
          if \<not> fileFilter file then Inl (Message ''Only audio files are allowed'')
          else if fileSize_limit < length (bytes file) then Inl (Message ''File too large'')
          else
            (let fname = storage_filename env file
             in Inr (Some \<lparr>file_originalname = originalname file, filename = fname\<rparr>,
                     fs(path_join_dirname [''uploads'', fname] \<mapsto> \<lparr>content = bytes file, removable = True\<rparr>))))"

text \<open>\<^verbatim>\<open>mm.parseFile(filePath)\<close>: the extractor reads the file at the path.\<close>

definition parseFile :: "environment \<Rightarrow> string \<Rightarrow> filesystem \<Rightarrow> string + metadata" where
  "parseFile env p fs =
     (case fs p of
        None \<Rightarrow> Inl (''ENOENT: no such file or directory, open '' @ p)
      | Some e \<Rightarrow> parse env (content e))"

section \<open>The request handlers\<close>

text \<open>\<^verbatim>\<open>app.get('/api/playlists', ...)\<close>.\<close>

definition GET_api_playlists :: "state \<Rightarrow> response" where
  "GET_api_playlists s =
     (case Playlist_find_sorted s of
        Inl e \<Rightarrow> Response 500 (ErrorObject e)
      | Inr playlists \<Rightarrow> Response 200 (PlaylistArray playlists))"

text \<open>
  The handler of \<^verbatim>\<open>app.post('/api/songs', ...)\<close>, after the upload middleware:
  the form field \<^verbatim>\<open>playlistId\<close> (absent when \<open>None\<close>) and the stored file.
\<close>

definition POST_api_songs_handler ::
  "environment \<Rightarrow> id_string option \<Rightarrow> stored_file option \<Rightarrow> state \<Rightarrow> response \<times> state" where
  "POST_api_songs_handler env pid file s =
     (case file of
        None \<Rightarrow> (Response 400 (ErrorObject (Message ''No audio file uploaded'')), s)
      | Some f \<Rightarrow>
          (let filePath = path_join_dirname [''uploads'', filename f]
           in case parseFile env filePath (files s) of
                Inl msg \<Rightarrow> (Response 500 (ErrorObject (Message msg)), s)
              | Inr md \<Rightarrow>
                  (let t = or_string (common_title md) (replace_extension (file_originalname f));
                       a = or_string (common_artist md) ''Unknown Artist'';
                       durationInSeconds = or_number (format_duration_seconds md) 0;
                       d = format_duration durationInSeconds
                   in case Song_save (generated_id env) t a d (''/uploads/'' @ filename f) pid s of
                        Inl e \<Rightarrow> (Response 500 (ErrorObject e), s)
                      | Inr (doc, s') \<Rightarrow> (Response 201 (SongDocument doc), s'))))"

text \<open>
  The whole route: the upload middleware runs first, and an error of the middleware
  goes to the default error handler of Express, which answers 500; the handler is not
  called then.
\<close>

definition POST_api_songs ::
  "environment \<Rightarrow> id_string option \<Rightarrow> upload_part option \<Rightarrow> state \<Rightarrow> response \<times> state" where
  "POST_api_songs env pid part s =
     (case upload_single env part (files s) of
        Inl e \<Rightarrow> (Response 500 (ErrorPage e), s)
      | Inr (file, fs) \<Rightarrow> POST_api_songs_handler env pid file (s\<lparr>files := fs\<rparr>))"

text \<open>\<^verbatim>\<open>app.get('/api/playlists/:id', ...)\<close>.\<close>

definition GET_api_playlists_id :: "id_string \<Rightarrow> state \<Rightarrow> response" where
  "GET_api_playlists_id i s =
     (case Playlist_findById i s of
        Inl e \<Rightarrow> Response 500 (ErrorObject e)
      | Inr None \<Rightarrow> Response 404 (ErrorObject (Message ''Playlist not found''))
      | Inr (Some p) \<Rightarrow>
          (case Song_find i s of
             Inl e \<Rightarrow> Response 500 (ErrorObject e)
           | Inr songs \<Rightarrow> Response 200 (PlaylistWithSongs p songs)))"

text \<open>
  The \<^verbatim>\<open>songs.forEach\<close> of the playlist deletion: the audio file of each song is
  unlinked when the song names one and it exists. An exception of
  \<^verbatim>\<open>fs.unlinkSync\<close> leaves the loop; the files unlinked before it stay unlinked.
\<close>

fun unlink_audio_files :: "song list \<Rightarrow> filesystem \<Rightarrow> error option \<times> filesystem" where
  "unlink_audio_files [] fs = (None, fs)"
| "unlink_audio_files (x # xs) fs =
     (case audioFile x of
        None \<Rightarrow> unlink_audio_files xs fs
      | Some f \<Rightarrow>
          if f = [] then unlink_audio_files xs fs
          else
            (let filePath = path_join_dirname [replace_leading_slash f]
             in if existsSync filePath fs then
                  (case unlinkSync filePath fs of
                     Inl e \<Rightarrow> (Some e, fs)
                   | Inr fs' \<Rightarrow> unlink_audio_files xs fs')
                else unlink_audio_files xs fs))"

text \<open>\<^verbatim>\<open>app.delete('/api/playlists/:id', ...)\<close>.\<close>

definition DELETE_api_playlists_id :: "id_string \<Rightarrow> state \<Rightarrow> response \<times> state" where
  "DELETE_api_playlists_id i s =
     (case Playlist_findByIdAndDelete i s of
        Inl e \<Rightarrow> (Response 500 (ErrorObject e), s)
      | Inr (None, s1) \<Rightarrow> (Response 404 (ErrorObject (Message ''Playlist not found'')), s1)
      | Inr (Some p, s1) \<Rightarrow>
          (case Song_find i s1 of
             Inl e \<Rightarrow> (Response 500 (ErrorObject e), s1)
           | Inr songs \<Rightarrow>
               (case unlink_audio_files songs (files s1) of
                  (Some e, fs) \<Rightarrow> (Response 500 (ErrorObject e), s1\<lparr>files := fs\<rparr>)
                | (None, fs) \<Rightarrow>
                    (case Song_deleteMany i (s1\<lparr>files := fs\<rparr>) of
                       Inl e \<Rightarrow> (Response 500 (ErrorObject e), s1\<lparr>files := fs\<rparr>)
                     | Inr s2 \<Rightarrow>
                         (Response 200 (MessageObject ''Playlist and all songs deleted successfully''),
                          s2)))))"

section \<open>Notions of the specification\<close>

text \<open>
  The number of seconds the duration string is computed from: the extractor's duration,
  or 0 when the extractor yields none.
\<close>

definition durationSeconds :: "metadata \<Rightarrow> rat" where
  "durationSeconds md = (case format_duration_seconds md of None \<Rightarrow> 0 | Some d \<Rightarrow> d)"

text \<open>A file name with its extension (its \<^verbatim>\<open>path.extname\<close>) stripped.\<close>

definition without_extname :: "string \<Rightarrow> string" where
  "without_extname n = take (length n - length (extname n)) n"


section \<open>Notions used to state what the handlers do\<close>

text \<open>
  The path under which an accepted upload is stored, and the state once Multer has
  written the blob there.
\<close>

definition stored_path :: "environment \<Rightarrow> upload_part \<Rightarrow> string" where
  "stored_path env file = path_join_dirname [''uploads'', storage_filename env file]"

definition with_blob :: "environment \<Rightarrow> upload_part \<Rightarrow> state \<Rightarrow> state" where
  "with_blob env file s =
     s\<lparr>files := (files s)(stored_path env file \<mapsto> \<lparr>content = bytes file, removable = True\<rparr>)\<rparr>"

text \<open>
  The path of the blob that the playlist deletion looks at for a song (none when the
  song names no audio file), whether unlinking that blob throws in a file system (it
  exists and cannot be removed), and a file system without the blobs of a list of
  songs.
\<close>

definition blob_path :: "song \<Rightarrow> string option" where
  "blob_path x =
     (case audioFile x of
        None \<Rightarrow> None
      | Some f \<Rightarrow> if f = [] then None else Some (path_join_dirname [replace_leading_slash f]))"

definition unlink_throws :: "filesystem \<Rightarrow> song \<Rightarrow> bool" where
  "unlink_throws fs x =
     (case blob_path x of
        None \<Rightarrow> False
      | Some p \<Rightarrow> (case fs p of None \<Rightarrow> False | Some e \<Rightarrow> \<not> removable e))"

definition without_blobs :: "song list \<Rightarrow> filesystem \<Rightarrow> filesystem" where
  "without_blobs xs fs p = (if Some p \<in> blob_path ` set xs then None else fs p)"

section \<open>Example requests and states\<close>

text \<open>
  Three extractors: one that finds the tags Foo, Bar and 125 seconds, one that finds no
  tag, and one that throws. A request made at time 17 with the random number 5, for
  which Mongoose generates the identifier 1.
\<close>

definition tagged_parse :: "nat list \<Rightarrow> string + metadata" where
  "tagged_parse b =
     Inr \<lparr>common_title = Some ''Foo'', common_artist = Some ''Bar'',
          format_duration_seconds = Some 125\<rparr>"

definition untagged_parse :: "nat list \<Rightarrow> string + metadata" where
  "untagged_parse b =
     Inr \<lparr>common_title = None, common_artist = None, format_duration_seconds = None\<rparr>"

definition failing_parse :: "nat list \<Rightarrow> string + metadata" where
  "failing_parse b = Inl ''Guessed MIME-type not supported''"

definition request_env :: "(nat list \<Rightarrow> string + metadata) \<Rightarrow> environment" where
  "request_env p = \<lparr>Date_now = 17, Math_random_1E9 = 5, generated_id = 1, parse = p\<rparr>"

text \<open>Two uploads, and the blob and the songs that the first one gives.\<close>

definition track_mp3 :: upload_part where
  "track_mp3 = \<lparr>originalname = ''track.mp3'', mimetype = ''audio/mpeg'', bytes = [73, 68, 51]\<rparr>"


definition track_blob :: file_entry where
  "track_blob = \<lparr>content = [73, 68, 51], removable = True\<rparr>"

definition tagged_song :: song where
  "tagged_song = \<lparr>song_id = 1, title = ''Foo'', artist = Some ''Bar'', duration = Some ''2:05'',
     audioFile = Some ''/uploads/17-5.mp3'', playlistId = 7\<rparr>"

definition untagged_song :: song where
  "untagged_song = \<lparr>song_id = 1, title = ''track'', artist = Some ''Unknown Artist'',
     duration = Some ''0:00'', audioFile = Some ''/uploads/17-5.mp3'', playlistId = 7\<rparr>"




text \<open>Playlists, and a store with one playlist and one with none.\<close>

definition road_trip :: playlist where
  "road_trip = \<lparr>playlist_id = 7, name = ''Road Trip'', creator = Some ''DJ Nitin'', createdAt = 1000\<rparr>"

definition other_playlist :: playlist where
  "other_playlist = \<lparr>playlist_id = 8, name = ''Focus'', creator = None, createdAt = 2000\<rparr>"

definition one_playlist :: state where
  "one_playlist = \<lparr>Playlist = [road_trip], Song = [], connected = True, files = Map.empty\<rparr>"

definition no_playlist :: state where
  "no_playlist = \<lparr>Playlist = [], Song = [], connected = True, files = Map.empty\<rparr>"

text \<open>
  Two playlists with three songs, two of them in the first playlist. In one store the
  blob of the first song cannot be unlinked; in the other it is missing from disk.
\<close>

definition busy_blob :: file_entry where
  "busy_blob = \<lparr>content = [82, 73, 70, 70], removable = False\<rparr>"

definition first_song :: song where
  "first_song = \<lparr>song_id = 11, title = ''One'', artist = Some ''Unknown Artist'',
     duration = Some ''0:30'', audioFile = Some ''/uploads/1-1.wav'', playlistId = 7\<rparr>"

definition second_song :: song where
  "second_song = \<lparr>song_id = 12, title = ''Two'', artist = Some ''Unknown Artist'',
     duration = Some ''0:30'', audioFile = Some ''/uploads/2-2.mp3'', playlistId = 7\<rparr>"

definition other_song :: song where
  "other_song = \<lparr>song_id = 13, title = ''Three'', artist = Some ''Unknown Artist'',
     duration = Some ''0:30'', audioFile = Some ''/uploads/3-3.mp3'', playlistId = 8\<rparr>"

definition busy_store :: state where
  "busy_store = \<lparr>Playlist = [road_trip, other_playlist],
     Song = [first_song, other_song, second_song], connected = True,
     files = [''uploads/1-1.wav'' \<mapsto> busy_blob, ''uploads/2-2.mp3'' \<mapsto> track_blob,
              ''uploads/3-3.mp3'' \<mapsto> track_blob]\<rparr>"

definition missing_blob_store :: state where
  "missing_blob_store = \<lparr>Playlist = [road_trip, other_playlist],
     Song = [first_song, other_song, second_song], connected = True,
     files = [''uploads/2-2.mp3'' \<mapsto> track_blob, ''uploads/3-3.mp3'' \<mapsto> track_blob]\<rparr>"

section \<open>Strings: the extension of a file name\<close>

text \<open>
  The expression that cuts the title out of a file name removes the \<^verbatim>\<open>path.extname\<close> of
  every name that the file filter accepts, provided the name has no slash.
\<close>

lemma contains_length: "contains s w \<Longrightarrow> length w \<le> length s"
proof (induction s)
  case Nil
  then show ?case by simp
next
  case (Cons c cs)
  show ?case
  proof (cases "startsWith (c # cs) w")
    case True
    then have "length (take (length w) (c # cs)) = length w" by (simp add: startsWith_def)
    then show ?thesis by (simp del: take_Suc_Cons)
  next
    case False
    then show ?thesis using Cons by auto
  qed
qed

lemma allowedTypes_test_length: "allowedTypes_test s \<Longrightarrow> 3 \<le> length s"
  unfolding allowedTypes_test_def using contains_length by fastforce

lemma replace_extension_last_dot:
  "list_all (\<lambda>d. d \<noteq> CHR ''/'' \<and> d \<noteq> CHR ''.'') e \<Longrightarrow> e \<noteq> [] \<Longrightarrow>
   replace_extension (pre @ CHR ''.'' # e) = pre"
  by (induction pre) (auto simp: list_all_iff)

lemma last_segment_no_slash:
  "CHR ''/'' \<notin> set n \<Longrightarrow> last_segment n = n"
proof -
  assume a: "CHR ''/'' \<notin> set n"
  have 1: "dropWhile (\<lambda>c. c = CHR ''/'') (rev n) = rev n"
    using a by (cases "rev n") (auto)
  have 2: "takeWhile (\<lambda>c. c \<noteq> CHR ''/'') (rev n) = rev n"
    using a by (auto simp: takeWhile_eq_all_conv)
  show ?thesis by (simp add: last_segment_def 1 2)
qed

lemma split_last_dot:
  assumes "CHR ''.'' \<in> set b"
  shows "\<exists>pre. b = pre @ CHR ''.'' # rev (takeWhile (\<lambda>c. c \<noteq> CHR ''.'') (rev b))"
proof -
  let ?P = "\<lambda>c. c \<noteq> CHR ''.''"
  have "dropWhile ?P (rev b) \<noteq> []" using assms by (simp add: dropWhile_eq_Nil_conv)
  then obtain y ys where d: "dropWhile ?P (rev b) = y # ys" by (cases "dropWhile ?P (rev b)") auto
  then have "y = CHR ''.''" using hd_dropWhile[of ?P "rev b"] by force
  have "rev b = takeWhile ?P (rev b) @ dropWhile ?P (rev b)" by simp
  then have "b = rev (dropWhile ?P (rev b)) @ rev (takeWhile ?P (rev b))"
    by (metis rev_append rev_rev_ident)
  then show ?thesis using d \<open>y = CHR ''.''\<close> by (metis append.assoc append_Cons append_Nil rev.simps(2))
qed

lemma replace_extension_extname:
  assumes "allowedTypes_test (toLowerCase (extname n))" and "CHR ''/'' \<notin> set n"
  shows "replace_extension n = without_extname n"
proof -
  let ?e = "rev (takeWhile (\<lambda>c. c \<noteq> CHR ''.'') (rev n))"
  have len: "3 \<le> length (extname n)"
    using allowedTypes_test_length[OF assms(1)] by (simp add: toLowerCase_def)
  have seg: "last_segment n = n" using assms(2) by (rule last_segment_no_slash)
  have ext: "extname n = CHR ''.'' # ?e" and dot: "CHR ''.'' \<in> set n"
    using len by (auto simp: extname_def seg Let_def list_all_iff split: if_splits)
  obtain pre where n: "n = pre @ CHR ''.'' # ?e" using split_last_dot[OF dot] by blast
  have e1: "?e \<noteq> []" using len ext by auto
  have "list_all (\<lambda>d. d \<noteq> CHR ''.'') ?e"
    unfolding list_all_iff using set_takeWhileD by fastforce
  moreover have "list_all (\<lambda>d. d \<noteq> CHR ''/'') ?e"
    unfolding list_all_iff using set_takeWhileD assms(2) by fastforce
  ultimately have e2: "list_all (\<lambda>d. d \<noteq> CHR ''/'' \<and> d \<noteq> CHR ''.'') ?e"
    by (simp add: list_all_iff)
  have "replace_extension n = pre"
    using replace_extension_last_dot[OF e2 e1, of pre] n by simp
  moreover have "without_extname n = pre"
    unfolding without_extname_def ext using n
    by (metis add_diff_cancel_right' append_eq_conv_conj length_append)
  ultimately show ?thesis by simp
qed

section \<open>The duration string\<close>

text \<open>
  For a duration that is not negative, \<^verbatim>\<open>%\<close> is the remainder of the floored division,
  its floor lies between 0 and 59, and the padded seconds have two characters.
\<close>

lemma nat_toString_length: "n < 100 \<Longrightarrow> length (nat_toString n) = (if n < 10 then 1 else 2)"
proof (cases "n < 10")
  case True
  then show ?thesis by (subst nat_toString.simps) simp
next
  case False
  assume "n < 100"
  then have "n div 10 < 10" by simp
  then have "length (nat_toString (n div 10)) = 1" by (subst nat_toString.simps) simp
  then show ?thesis using False by (subst nat_toString.simps) simp
qed

lemma js_rem_nonneg:
  assumes "0 \<le> d"
  shows "js_rem d 60 = d - 60 * of_int \<lfloor>d / 60\<rfloor>" and "0 \<le> \<lfloor>js_rem d 60\<rfloor>" and "\<lfloor>js_rem d 60\<rfloor> < 60"
proof -
  show eq: "js_rem d 60 = d - 60 * of_int \<lfloor>d / 60\<rfloor>" using assms by (simp add: js_rem_def)
  have "of_int \<lfloor>d / 60\<rfloor> \<le> d / 60" by (rule of_int_floor_le)
  then have lo: "0 \<le> js_rem d 60" unfolding eq by simp
  then show "0 \<le> \<lfloor>js_rem d 60\<rfloor>" by simp
  have "d / 60 < of_int \<lfloor>d / 60\<rfloor> + 1" by linarith
  then have "js_rem d 60 < 60" unfolding eq by simp
  then show "\<lfloor>js_rem d 60\<rfloor> < 60" by (simp add: floor_less_iff)
qed

lemma seconds_two_digits:
  assumes "0 \<le> d"
  shows "length (padStart (int_toString \<lfloor>js_rem d 60\<rfloor>) 2 (CHR ''0'')) = 2"
proof -
  let ?r = "\<lfloor>js_rem d 60\<rfloor>"
  have r: "0 \<le> ?r" "?r < 60" using js_rem_nonneg[OF assms] by auto
  then have "nat ?r < 100" by linarith
  from nat_toString_length[OF this] have "length (nat_toString (nat ?r)) = (if nat ?r < 10 then 1 else 2)" .
  then show ?thesis using r by (simp add: padStart_def int_toString_def)
qed

lemma format_duration_125: "format_duration 125 = ''2:05''"
  by code_simp

lemma format_duration_0: "format_duration 0 = ''0:00''"
  by code_simp

section \<open>The upload route, case by case\<close>

text \<open>
  What the route answers for an accepted upload, for a refused one and without a file;
  what a 201 tells about the request; and that the route does not read the Playlist
  collection.
\<close>

lemma or_number_durationSeconds: "or_number (format_duration_seconds md) 0 = durationSeconds md"
  by (simp add: or_number_def durationSeconds_def split: option.splits)

lemma POST_api_songs_accepted:
  assumes "fileFilter file" and "length (bytes file) \<le> fileSize_limit"
  shows "POST_api_songs env pid (Some file) s =
     (case parse env (bytes file) of
        Inl msg \<Rightarrow> (Response 500 (ErrorObject (Message msg)), with_blob env file s)
      | Inr md \<Rightarrow>
          (case Song_save (generated_id env)
                  (or_string (common_title md) (replace_extension (originalname file)))
                  (or_string (common_artist md) ''Unknown Artist'')
                  (format_duration (durationSeconds md))
                  (''/uploads/'' @ storage_filename env file) pid (with_blob env file s) of
             Inl e \<Rightarrow> (Response 500 (ErrorObject e), with_blob env file s)
           | Inr (doc, s') \<Rightarrow> (Response 201 (SongDocument doc), s')))"
  using assms
  by (simp add: POST_api_songs_def upload_single_def POST_api_songs_handler_def parseFile_def
      with_blob_def stored_path_def Let_def or_number_durationSeconds split: sum.splits)

lemma POST_api_songs_rejected:
  assumes "\<not> fileFilter file \<or> fileSize_limit < length (bytes file)"
  shows "\<exists>e. POST_api_songs env pid (Some file) s = (Response 500 (ErrorPage e), s)"
  using assms by (auto simp: POST_api_songs_def upload_single_def)

lemma POST_api_songs_no_file:
  "POST_api_songs env pid None s = (Response 400 (ErrorObject (Message ''No audio file uploaded'')), s)"
  by (simp add: POST_api_songs_def upload_single_def POST_api_songs_handler_def)

lemma Song_save_Inr:
  assumes "Song_save i t a d f pid s = Inr (doc, s')"
  shows "\<exists>oid. pid = Some (WellFormed oid) \<and> t \<noteq> [] \<and> connected s \<and>
     doc = \<lparr>song_id = i, title = t, artist = Some a, duration = Some d, audioFile = Some f,
             playlistId = oid\<rparr> \<and>
     s' = s\<lparr>Song := Song s @ [doc]\<rparr>"
  using assms
  by (auto simp: Song_save_def Let_def split: option.splits id_string.splits if_splits)

lemma POST_api_songs_created:
  assumes "POST_api_songs env pid part s = (Response 201 (SongDocument doc), s')"
  shows "\<exists>file md oid. part = Some file \<and> fileFilter file \<and> parse env (bytes file) = Inr md \<and>
     pid = Some (WellFormed oid) \<and>
     doc = \<lparr>song_id = generated_id env,
             title = or_string (common_title md) (replace_extension (originalname file)),
             artist = Some (or_string (common_artist md) ''Unknown Artist''),
             duration = Some (format_duration (durationSeconds md)),
             audioFile = Some (''/uploads/'' @ storage_filename env file),
             playlistId = oid\<rparr> \<and>
     s' = (with_blob env file s)\<lparr>Song := Song s @ [doc]\<rparr>"
proof (cases part)
  case None
  then show ?thesis using assms by (simp add: POST_api_songs_no_file)
next
  case (Some upl)
  show ?thesis
  proof (cases "fileFilter upl \<and> length (bytes upl) \<le> fileSize_limit")
    case False
    then have "\<not> fileFilter upl \<or> fileSize_limit < length (bytes upl)" by auto
    from POST_api_songs_rejected[OF this, of env pid s] show ?thesis using assms Some by auto
  next
    case True
    then have f: "fileFilter upl" and l: "length (bytes upl) \<le> fileSize_limit" by auto
    note eq = POST_api_songs_accepted[OF f l, of env pid s]
    show ?thesis
    proof (cases "parse env (bytes upl)")
      case (Inl msg)
      then show ?thesis using assms Some eq by simp
    next
      case (Inr md)
      let ?sv = "Song_save (generated_id env)
                  (or_string (common_title md) (replace_extension (originalname upl)))
                  (or_string (common_artist md) ''Unknown Artist'')
                  (format_duration (durationSeconds md))
                  (''/uploads/'' @ storage_filename env upl) pid (with_blob env upl s)"
      show ?thesis
      proof (cases ?sv)
        case (Inl e)
        then show ?thesis using assms Some eq Inr by simp
      next
        case (Inr r)
        obtain d2 s2 where r: "r = (d2, s2)" by (cases r)
        with Inr have sv: "?sv = Inr (d2, s2)" by simp
        have "d2 = doc" "s2 = s'" using assms Some eq \<open>parse env (bytes upl) = Inr md\<close> sv by auto
        with sv have sv': "?sv = Inr (doc, s')" by simp
        from Song_save_Inr[OF sv'] show ?thesis
          using Some f \<open>parse env (bytes upl) = Inr md\<close> by (auto simp: with_blob_def)
      qed
    qed
  qed
qed

lemma POST_api_songs_Playlist_irrelevant:
  "POST_api_songs env pid part (s\<lparr>Playlist := ps\<rparr>) =
     (fst (POST_api_songs env pid part s), (snd (POST_api_songs env pid part s))\<lparr>Playlist := ps\<rparr>)"
  by (simp add: POST_api_songs_def upload_single_def POST_api_songs_handler_def parseFile_def
      Song_save_def Let_def
      split: option.splits sum.splits id_string.splits)

section \<open>The playlist deletion, case by case\<close>

text \<open>
  The loop over the songs, one song at a time; its result when no blob refuses to be
  unlinked, and when the first such blob is met; and the deletion of a playlist that
  is found.
\<close>

lemma unlink_audio_files_step:
  "unlink_audio_files (x # xs) fs =
     (case blob_path x of
        None \<Rightarrow> unlink_audio_files xs fs
      | Some p \<Rightarrow>
          (case fs p of
             None \<Rightarrow> unlink_audio_files xs fs
           | Some e \<Rightarrow>
               if removable e then unlink_audio_files xs (fs(p := None))
               else (Some (UnlinkError p), fs)))"
  by (simp add: blob_path_def existsSync_def unlinkSync_def Let_def split: option.splits)

lemma without_blobs_Nil: "without_blobs [] fs = fs"
  by (rule ext) (simp add: without_blobs_def)

lemma unlink_audio_files_all:
  "list_all (\<lambda>x. \<not> unlink_throws fs x) xs \<Longrightarrow>
   unlink_audio_files xs fs = (None, without_blobs xs fs)"
proof (induction xs arbitrary: fs)
  case Nil
  then show ?case by (simp add: without_blobs_Nil)
next
  case (Cons x xs)
  then have x: "\<not> unlink_throws fs x" and xs: "list_all (\<lambda>y. \<not> unlink_throws fs y) xs" by auto
  show ?case
  proof (cases "blob_path x")
    case None
    then have "without_blobs (x # xs) fs = without_blobs xs fs"
      by (intro ext) (auto simp: without_blobs_def)
    then show ?thesis using None Cons.IH[OF xs] by (simp add: unlink_audio_files_step del: unlink_audio_files.simps)
  next
    case (Some p)
    show ?thesis
    proof (cases "fs p")
      case None
      then have "without_blobs (x # xs) fs = without_blobs xs fs"
        using Some by (intro ext) (auto simp: without_blobs_def)
      then show ?thesis using None Some Cons.IH[OF xs]
        by (simp add: unlink_audio_files_step del: unlink_audio_files.simps)
    next
      case (Some e)
      with x \<open>blob_path x = Some p\<close> have r: "removable e" by (simp add: unlink_throws_def)
      have "list_all (\<lambda>y. \<not> unlink_throws (fs(p := None)) y) xs"
        using xs by (auto simp: list_all_iff unlink_throws_def split: option.splits)
      from Cons.IH[OF this]
      have "unlink_audio_files xs (fs(p := None)) = (None, without_blobs xs (fs(p := None)))" .
      moreover have "without_blobs xs (fs(p := None)) = without_blobs (x # xs) fs"
        using \<open>blob_path x = Some p\<close> by (intro ext) (auto simp: without_blobs_def)
      ultimately show ?thesis using Some \<open>blob_path x = Some p\<close> r
        by (simp add: unlink_audio_files_step del: unlink_audio_files.simps)
    qed
  qed
qed

lemma unlink_throws_after_unlink:
  assumes "unlink_throws fs y" and "fs p = Some e" and "removable e"
  shows "unlink_throws (fs(p := None)) y"
proof -
  from assms(1) obtain q d where q: "blob_path y = Some q" "fs q = Some d" "\<not> removable d"
    by (auto simp: unlink_throws_def split: option.splits)
  with assms(2,3) have "q \<noteq> p" by auto
  with q show ?thesis by (simp add: unlink_throws_def)
qed

lemma unlink_audio_files_throws_at:
  "list_all (\<lambda>y. \<not> unlink_throws fs y) ys \<Longrightarrow> unlink_throws fs x \<Longrightarrow>
   unlink_audio_files (ys @ x # zs) fs =
     (Some (UnlinkError (the (blob_path x))), without_blobs ys fs)"
proof (induction ys arbitrary: fs)
  case Nil
  then show ?case
    by (auto simp: unlink_audio_files_step unlink_throws_def without_blobs_Nil
        simp del: unlink_audio_files.simps split: option.splits)
next
  case (Cons y ys)
  then have y: "\<not> unlink_throws fs y" and ys: "list_all (\<lambda>y. \<not> unlink_throws fs y) ys" by auto
  show ?case
  proof (cases "blob_path y")
    case None
    then have "without_blobs (y # ys) fs = without_blobs ys fs"
      by (intro ext) (auto simp: without_blobs_def)
    moreover have "unlink_audio_files ((y # ys) @ x # zs) fs = unlink_audio_files (ys @ x # zs) fs"
      using None by (simp add: unlink_audio_files_step del: unlink_audio_files.simps)
    ultimately show ?thesis using Cons.IH[OF ys Cons.prems(2)] by simp
  next
    case (Some p)
    show ?thesis
    proof (cases "fs p")
      case None
      then have "without_blobs (y # ys) fs = without_blobs ys fs"
        using Some by (intro ext) (auto simp: without_blobs_def)
      moreover have "unlink_audio_files ((y # ys) @ x # zs) fs = unlink_audio_files (ys @ x # zs) fs"
        using None Some by (simp add: unlink_audio_files_step del: unlink_audio_files.simps)
      ultimately show ?thesis using Cons.IH[OF ys Cons.prems(2)] by simp
    next
      case (Some e)
      with y \<open>blob_path y = Some p\<close> have r: "removable e" by (simp add: unlink_throws_def)
      have 1: "list_all (\<lambda>y. \<not> unlink_throws (fs(p := None)) y) ys"
        using ys by (auto simp: list_all_iff unlink_throws_def split: option.splits)
      have 2: "unlink_throws (fs(p := None)) x"
        using Cons.prems(2) Some r by (rule unlink_throws_after_unlink)
      have "unlink_audio_files ((y # ys) @ x # zs) fs = unlink_audio_files (ys @ x # zs) (fs(p := None))"
        using Some \<open>blob_path y = Some p\<close> r
        by (simp add: unlink_audio_files_step del: unlink_audio_files.simps)
      moreover have "without_blobs ys (fs(p := None)) = without_blobs (y # ys) fs"
        using \<open>blob_path y = Some p\<close> by (intro ext) (auto simp: without_blobs_def)
      ultimately show ?thesis using Cons.IH[OF 1 2] by (simp only:)
    qed
  qed
qed

lemma DELETE_api_playlists_id_found:
  assumes "connected s" and "find (\<lambda>q. playlist_id q = oid) (Playlist s) = Some p"
  shows "DELETE_api_playlists_id (WellFormed oid) s =
     (case unlink_audio_files (filter (\<lambda>x. playlistId x = oid) (Song s)) (files s) of
        (Some e, fs) \<Rightarrow>
          (Response 500 (ErrorObject e), s\<lparr>Playlist := remove1 p (Playlist s), files := fs\<rparr>)
      | (None, fs) \<Rightarrow>
          (Response 200 (MessageObject ''Playlist and all songs deleted successfully''),
           s\<lparr>Playlist := remove1 p (Playlist s), files := fs,
              Song := filter (\<lambda>x. playlistId x \<noteq> oid) (Song s)\<rparr>))"
  using assms
  by (simp add: DELETE_api_playlists_id_def Playlist_findByIdAndDelete_def cast_id_def
      Song_find_def Song_deleteMany_def split: prod.splits option.splits)

lemma DELETE_api_playlists_id_200:
  assumes "DELETE_api_playlists_id i s = (Response 200 b, s')"
  shows "\<exists>oid p. i = WellFormed oid \<and> connected s \<and>
           find (\<lambda>q. playlist_id q = oid) (Playlist s) = Some p"
  using assms
  by (auto simp: DELETE_api_playlists_id_def Playlist_findByIdAndDelete_def cast_id_def
      split: id_string.splits if_splits option.splits)

section \<open>The examples, evaluated\<close>

lemma fileFilter_track_mp3: "fileFilter track_mp3"
  by (simp add: fileFilter_def track_mp3_def allowedTypes_test_def toLowerCase_def
      toLowerCase_char_def extname_def last_segment_def startsWith_def)

lemma request_env_simps:
  "parse (request_env p) = p" "generated_id (request_env p) = 1"
  by (simp_all add: request_env_def)

lemma track_mp3_simps:
  "originalname track_mp3 = ''track.mp3''" "bytes track_mp3 = [73, 68, 51]"
  by (simp_all add: track_mp3_def)

lemma storage_filename_track_mp3: "storage_filename (request_env p) track_mp3 = ''17-5.mp3''"
  by (simp add: storage_filename_def request_env_def track_mp3_def extname_def last_segment_def
      nat_toString.simps)

lemma size_track_mp3: "length (bytes track_mp3) \<le> fileSize_limit"
  by (simp add: track_mp3_def fileSize_limit_def)

lemma tagged_upload:
  "POST_api_songs (request_env tagged_parse) (Some (WellFormed 7)) (Some track_mp3) s =
     (if connected s \<and> \<not> list_ex (\<lambda>x. song_id x = 1) (Song s)
      then (Response 201 (SongDocument tagged_song),
            s\<lparr>files := (files s)(''uploads/17-5.mp3'' \<mapsto> track_blob), Song := Song s @ [tagged_song]\<rparr>)
      else (Response 500 (ErrorObject StoreError),
            s\<lparr>files := (files s)(''uploads/17-5.mp3'' \<mapsto> track_blob)\<rparr>))"
  unfolding POST_api_songs_accepted[OF fileFilter_track_mp3 size_track_mp3]
  by (simp add: with_blob_def stored_path_def storage_filename_track_mp3 Song_save_def Let_def
      durationSeconds_def or_string_def format_duration_125 tagged_song_def track_blob_def
      request_env_simps tagged_parse_def track_mp3_simps)

lemma untagged_upload:
  "POST_api_songs (request_env untagged_parse) (Some (WellFormed 7)) (Some track_mp3) s =
     (if connected s \<and> \<not> list_ex (\<lambda>x. song_id x = 1) (Song s)
      then (Response 201 (SongDocument untagged_song),
            s\<lparr>files := (files s)(''uploads/17-5.mp3'' \<mapsto> track_blob), Song := Song s @ [untagged_song]\<rparr>)
      else (Response 500 (ErrorObject StoreError),
            s\<lparr>files := (files s)(''uploads/17-5.mp3'' \<mapsto> track_blob)\<rparr>))"
  unfolding POST_api_songs_accepted[OF fileFilter_track_mp3 size_track_mp3]
  by (simp add: with_blob_def stored_path_def storage_filename_track_mp3 Song_save_def Let_def
      durationSeconds_def or_string_def format_duration_0 untagged_song_def track_blob_def
      request_env_simps untagged_parse_def track_mp3_simps)







lemma blob_path_examples:
  "blob_path first_song = Some ''uploads/1-1.wav''"
  "blob_path second_song = Some ''uploads/2-2.mp3''"
  by (simp_all add: blob_path_def first_song_def second_song_def)

lemma busy_store_simps:
  "connected busy_store"
  "find (\<lambda>q. playlist_id q = 7) (Playlist busy_store) = Some road_trip"
  "remove1 road_trip (Playlist busy_store) = [other_playlist]"
  "filter (\<lambda>x. playlistId x = 7) (Song busy_store) = [first_song, second_song]"
  "filter (\<lambda>x. playlistId x \<noteq> 7) (Song busy_store) = [other_song]"
  "Song busy_store = [first_song, other_song, second_song]"
  by (simp_all add: busy_store_def road_trip_def other_playlist_def first_song_def
      second_song_def other_song_def)

lemma busy_store_unlink:
  "unlink_audio_files [first_song, second_song] (files busy_store) =
     (Some (UnlinkError ''uploads/1-1.wav''), files busy_store)"
  by (simp add: busy_store_def first_song_def second_song_def busy_blob_def Let_def
      existsSync_def unlinkSync_def)

lemma busy_store_delete:
  "DELETE_api_playlists_id (WellFormed 7) busy_store =
     (Response 500 (ErrorObject (UnlinkError ''uploads/1-1.wav'')),
      busy_store\<lparr>Playlist := [other_playlist]\<rparr>)"
  by (simp add: DELETE_api_playlists_id_found[OF busy_store_simps(1,2)] busy_store_simps(3,4)
      busy_store_unlink del: unlink_audio_files.simps)

lemma busy_store_throw:
  "unlink_throws (files busy_store) first_song"
  by (simp add: unlink_throws_def blob_path_examples busy_store_def busy_blob_def)

lemma missing_blob_store_simps:
  "connected missing_blob_store"
  "find (\<lambda>q. playlist_id q = 7) (Playlist missing_blob_store) = Some road_trip"
  "remove1 road_trip (Playlist missing_blob_store) = [other_playlist]"
  "filter (\<lambda>x. playlistId x = 7) (Song missing_blob_store) = [first_song, second_song]"
  "filter (\<lambda>x. playlistId x \<noteq> 7) (Song missing_blob_store) = [other_song]"
  "find (\<lambda>q. playlist_id q = 9) (Playlist missing_blob_store) = None"
  by (simp_all add: missing_blob_store_def road_trip_def other_playlist_def first_song_def
      second_song_def other_song_def)

lemma missing_blob_store_no_throw:
  "list_all (\<lambda>x. \<not> unlink_throws (files missing_blob_store) x) [first_song, second_song]"
  by (simp add: unlink_throws_def blob_path_examples missing_blob_store_def track_blob_def)

lemma missing_blob_store_delete:
  "DELETE_api_playlists_id (WellFormed 7) missing_blob_store =
     (Response 200 (MessageObject ''Playlist and all songs deleted successfully''),
      missing_blob_store\<lparr>Playlist := [other_playlist],
        files := without_blobs [first_song, second_song] (files missing_blob_store),
        Song := [other_song]\<rparr>)"
  by (simp add: DELETE_api_playlists_id_found[OF missing_blob_store_simps(1,2)]
      missing_blob_store_simps(3,4,5) unlink_audio_files_all[OF missing_blob_store_no_throw]
      del: unlink_audio_files.simps)

section \<open>The claims\<close>

subsection \<open>C1: the duration string\<close>

text \<open>
  C1. Whenever the upload route answers 201 with the created song, the stored duration
  is the decimal numeral of \<open>\<lfloor>d / 60\<rfloor>\<close>, a colon, and the decimal numeral of
  \<open>\<lfloor>d % 60\<rfloor>\<close> padded with zeros to two characters, where \<open>d\<close> is the duration
  that the extractor reports for the uploaded bytes, or 0 when it reports none. For a
  duration that is not negative the seconds part has exactly two characters. A
  duration of 125 seconds gives \<^verbatim>\<open>2:05\<close>, and no duration gives \<^verbatim>\<open>0:00\<close>.
\<close>

theorem addSong_duration:
  assumes "POST_api_songs env pid (Some upl) s = (Response 201 (SongDocument doc), s')"
    and "parse env (bytes upl) = Inr md"
  shows "duration doc =
           Some (int_toString \<lfloor>durationSeconds md / 60\<rfloor> @ '':'' @
                 padStart (int_toString \<lfloor>js_rem (durationSeconds md) 60\<rfloor>) 2 (CHR ''0'')) \<and>
         (0 \<le> durationSeconds md \<longrightarrow>
            length (padStart (int_toString \<lfloor>js_rem (durationSeconds md) 60\<rfloor>) 2 (CHR ''0'')) = 2) \<and>
         (format_duration_seconds md = Some 125 \<longrightarrow> duration doc = Some ''2:05'') \<and>
         (format_duration_seconds md = None \<longrightarrow> duration doc = Some ''0:00'')"
proof -
  from POST_api_songs_created[OF assms(1)] assms(2)
  have d: "duration doc = Some (format_duration (durationSeconds md))" by auto
  have "format_duration_seconds md = Some 125 \<Longrightarrow> durationSeconds md = 125"
    and "format_duration_seconds md = None \<Longrightarrow> durationSeconds md = 0"
    by (simp_all add: durationSeconds_def)
  then show ?thesis
    using d format_duration_125 format_duration_0 seconds_two_digits
    by (auto simp: format_duration_def)
qed

theorem addSong_duration_witness:
  "POST_api_songs (request_env tagged_parse) (Some (WellFormed 7)) (Some track_mp3) one_playlist =
     (Response 201 (SongDocument tagged_song),
      one_playlist\<lparr>files := (files one_playlist)(''uploads/17-5.mp3'' \<mapsto> track_blob),
                   Song := Song one_playlist @ [tagged_song]\<rparr>) \<and>
   parse (request_env tagged_parse) (bytes track_mp3) =
     Inr \<lparr>common_title = Some ''Foo'', common_artist = Some ''Bar'',
          format_duration_seconds = Some 125\<rparr> \<and>
   duration tagged_song = Some ''2:05'' \<and>
   length (padStart (int_toString \<lfloor>js_rem 125 60\<rfloor>) 2 (CHR ''0'')) = 2 \<and>
   POST_api_songs (request_env untagged_parse) (Some (WellFormed 7)) (Some track_mp3) one_playlist =
     (Response 201 (SongDocument untagged_song),
      one_playlist\<lparr>files := (files one_playlist)(''uploads/17-5.mp3'' \<mapsto> track_blob),
                   Song := Song one_playlist @ [untagged_song]\<rparr>) \<and>
   parse (request_env untagged_parse) (bytes track_mp3) =
     Inr \<lparr>common_title = None, common_artist = None, format_duration_seconds = None\<rparr> \<and>
   duration untagged_song = Some ''0:00''"
proof -
  let ?tags = "\<lparr>common_title = Some ''Foo'', common_artist = Some ''Bar'',
          format_duration_seconds = Some 125\<rparr>"
  let ?none = "\<lparr>common_title = None, common_artist = None, format_duration_seconds = None\<rparr>"
  have h1: "POST_api_songs (request_env tagged_parse) (Some (WellFormed 7)) (Some track_mp3) one_playlist =
     (Response 201 (SongDocument tagged_song),
      one_playlist\<lparr>files := (files one_playlist)(''uploads/17-5.mp3'' \<mapsto> track_blob),
                   Song := Song one_playlist @ [tagged_song]\<rparr>)"
    by (simp add: tagged_upload one_playlist_def)
  have h2: "parse (request_env tagged_parse) (bytes track_mp3) = Inr ?tags"
    by (simp add: request_env_def tagged_parse_def)
  have h3: "format_duration_seconds ?tags = Some 125" by simp
  have h4: "durationSeconds ?tags = 125" by (simp add: durationSeconds_def)
  have h5: "0 \<le> durationSeconds ?tags" by (simp add: h4)
  from addSong_duration[OF h1 h2] h3 h5
  have t: "duration tagged_song = Some ''2:05''"
    "length (padStart (int_toString \<lfloor>js_rem (durationSeconds ?tags) 60\<rfloor>) 2 (CHR ''0'')) = 2"
    by blast+
  have g1: "POST_api_songs (request_env untagged_parse) (Some (WellFormed 7)) (Some track_mp3) one_playlist =
     (Response 201 (SongDocument untagged_song),
      one_playlist\<lparr>files := (files one_playlist)(''uploads/17-5.mp3'' \<mapsto> track_blob),
                   Song := Song one_playlist @ [untagged_song]\<rparr>)"
    by (simp add: untagged_upload one_playlist_def)
  have g2: "parse (request_env untagged_parse) (bytes track_mp3) = Inr ?none"
    by (simp add: request_env_def untagged_parse_def)
  have g3: "format_duration_seconds ?none = None" by simp
  from addSong_duration[OF g1 g2] g3 have u: "duration untagged_song = Some ''0:00''" by blast
  show ?thesis using h1 h2 t(1) t(2)[unfolded h4] g1 g2 u by (simp only: simp_thms)
qed

subsection \<open>C2: title and artist\<close>

text \<open>
  C2. Whenever the upload route answers 201 with the created song, the stored title is
  the extracted title when there is one (an empty tag counts as none, as for
  \<^verbatim>\<open>||\<close>), and otherwise the original file name without its extension: the handler
  cuts the name at its last dot, which, for a name that the filter has accepted and
  that has no slash, is the name without its \<^verbatim>\<open>path.extname\<close>. The stored artist is
  the extracted artist when there is one, and otherwise \<^verbatim>\<open>Unknown Artist\<close>. An
  untagged upload named \<^verbatim>\<open>track.mp3\<close> gets the title \<^verbatim>\<open>track\<close> and the artist
  \<^verbatim>\<open>Unknown Artist\<close>.
\<close>

theorem addSong_title_artist:
  assumes "POST_api_songs env pid (Some upl) s = (Response 201 (SongDocument doc), s')"
    and "parse env (bytes upl) = Inr md"
  shows "(\<forall>t. common_title md = Some t \<and> t \<noteq> [] \<longrightarrow> title doc = t) \<and>
         (common_title md = None \<or> common_title md = Some [] \<longrightarrow>
            title doc = replace_extension (originalname upl)) \<and>
         (CHR ''/'' \<notin> set (originalname upl) \<longrightarrow>
            replace_extension (originalname upl) = without_extname (originalname upl)) \<and>
         (\<forall>a. common_artist md = Some a \<and> a \<noteq> [] \<longrightarrow> artist doc = Some a) \<and>
         (common_artist md = None \<or> common_artist md = Some [] \<longrightarrow>
            artist doc = Some ''Unknown Artist'') \<and>
         (originalname upl = ''track.mp3'' \<and> common_title md = None \<and> common_artist md = None \<longrightarrow>
            title doc = ''track'' \<and> artist doc = Some ''Unknown Artist'')"
proof -
  from POST_api_songs_created[OF assms(1)] assms(2)
  have t: "title doc = or_string (common_title md) (replace_extension (originalname upl))"
    and a: "artist doc = Some (or_string (common_artist md) ''Unknown Artist'')"
    and f: "fileFilter upl"
    by auto
  from f have "allowedTypes_test (toLowerCase (extname (originalname upl)))"
    by (simp add: fileFilter_def Let_def)
  then have e: "CHR ''/'' \<notin> set (originalname upl) \<Longrightarrow>
      replace_extension (originalname upl) = without_extname (originalname upl)"
    by (rule replace_extension_extname)
  show ?thesis using t a e by (auto simp: or_string_def)
qed

theorem addSong_title_artist_witness:
  "POST_api_songs (request_env untagged_parse) (Some (WellFormed 7)) (Some track_mp3) one_playlist =
     (Response 201 (SongDocument untagged_song),
      one_playlist\<lparr>files := (files one_playlist)(''uploads/17-5.mp3'' \<mapsto> track_blob),
                   Song := Song one_playlist @ [untagged_song]\<rparr>) \<and>
   parse (request_env untagged_parse) (bytes track_mp3) =
     Inr \<lparr>common_title = None, common_artist = None, format_duration_seconds = None\<rparr> \<and>
   originalname track_mp3 = ''track.mp3'' \<and>
   CHR ''/'' \<notin> set (originalname track_mp3) \<and>
   title untagged_song = ''track'' \<and> artist untagged_song = Some ''Unknown Artist'' \<and>
   replace_extension (originalname track_mp3) = without_extname (originalname track_mp3) \<and>
   POST_api_songs (request_env tagged_parse) (Some (WellFormed 7)) (Some track_mp3) one_playlist =
     (Response 201 (SongDocument tagged_song),
      one_playlist\<lparr>files := (files one_playlist)(''uploads/17-5.mp3'' \<mapsto> track_blob),
                   Song := Song one_playlist @ [tagged_song]\<rparr>) \<and>
   parse (request_env tagged_parse) (bytes track_mp3) =
     Inr \<lparr>common_title = Some ''Foo'', common_artist = Some ''Bar'',
          format_duration_seconds = Some 125\<rparr> \<and>
   title tagged_song = ''Foo'' \<and> artist tagged_song = Some ''Bar''"
proof -
  let ?tags = "\<lparr>common_title = Some ''Foo'', common_artist = Some ''Bar'',
          format_duration_seconds = Some 125\<rparr>"
  let ?none = "\<lparr>common_title = None, common_artist = None, format_duration_seconds = None\<rparr>"
  have h1: "POST_api_songs (request_env untagged_parse) (Some (WellFormed 7)) (Some track_mp3) one_playlist =
     (Response 201 (SongDocument untagged_song),
      one_playlist\<lparr>files := (files one_playlist)(''uploads/17-5.mp3'' \<mapsto> track_blob),
                   Song := Song one_playlist @ [untagged_song]\<rparr>)"
    by (simp add: untagged_upload one_playlist_def)
  have h2: "parse (request_env untagged_parse) (bytes track_mp3) = Inr ?none"
    by (simp add: request_env_def untagged_parse_def)
  have h3: "originalname track_mp3 = ''track.mp3''" by (simp add: track_mp3_def)
  have h4: "common_title ?none = None" "common_artist ?none = None" by simp_all
  have h5: "CHR ''/'' \<notin> set (originalname track_mp3)" by (simp add: h3)
  from addSong_title_artist[OF h1 h2] h3 h4 h5
  have u: "title untagged_song = ''track''" "artist untagged_song = Some ''Unknown Artist''"
    "replace_extension (originalname track_mp3) = without_extname (originalname track_mp3)"
    by blast+
  have g1: "POST_api_songs (request_env tagged_parse) (Some (WellFormed 7)) (Some track_mp3) one_playlist =
     (Response 201 (SongDocument tagged_song),
      one_playlist\<lparr>files := (files one_playlist)(''uploads/17-5.mp3'' \<mapsto> track_blob),
                   Song := Song one_playlist @ [tagged_song]\<rparr>)"
    by (simp add: tagged_upload one_playlist_def)
  have g2: "parse (request_env tagged_parse) (bytes track_mp3) = Inr ?tags"
    by (simp add: request_env_def tagged_parse_def)
  have g3: "common_title ?tags = Some ''Foo'' \<and> ''Foo'' \<noteq> []"
    "common_artist ?tags = Some ''Bar'' \<and> ''Bar'' \<noteq> []" by simp_all
  from addSong_title_artist[OF g1 g2] g3
  have t: "title tagged_song = ''Foo''" "artist tagged_song = Some ''Bar''" by blast+
  show ?thesis using h1 h2 h3 h5 u g1 g2 t by (simp only: simp_thms)
qed

subsection \<open>C3: the playlist of a new song\<close>

text \<open>
  C3 says that the playlist of a song exists when the song is created. The handler
  never looks the playlist up: with an empty Playlist collection, an upload for the
  well-formed identifier 7 is answered 201 and the song is inserted.
\<close>

theorem addSong_playlist_exists_counterexample:
  "fst (POST_api_songs (request_env untagged_parse) (Some (WellFormed 7)) (Some track_mp3) no_playlist) =
     Response 201 (SongDocument untagged_song) \<and>
   Song (snd (POST_api_songs (request_env untagged_parse) (Some (WellFormed 7)) (Some track_mp3) no_playlist)) =
     [untagged_song] \<and>
   playlistId untagged_song = 7 \<and>
   Playlist (snd (POST_api_songs (request_env untagged_parse) (Some (WellFormed 7)) (Some track_mp3) no_playlist)) =
     []"
  by (simp add: untagged_upload no_playlist_def untagged_song_def)

text \<open>
  C3, amended. The \<^verbatim>\<open>playlistId\<close> of a created song is the well-formed identifier
  given in the form field; the song is appended to the Song collection, the Playlist
  collection is not touched, and it is not read either: with any other Playlist
  collection the same request creates the same song.
\<close>

theorem addSong_playlistId_unchecked:
  assumes "POST_api_songs env pid part s = (Response 201 (SongDocument doc), s')"
  shows "pid = Some (WellFormed (playlistId doc)) \<and>
         Song s' = Song s @ [doc] \<and>
         Playlist s' = Playlist s \<and>
         POST_api_songs env pid part (s\<lparr>Playlist := ps\<rparr>) =
           (Response 201 (SongDocument doc), s'\<lparr>Playlist := ps\<rparr>)"
proof -
  from POST_api_songs_created[OF assms]
  have "pid = Some (WellFormed (playlistId doc))" "Song s' = Song s @ [doc]" "Playlist s' = Playlist s"
    by (auto simp: with_blob_def)
  moreover have "POST_api_songs env pid part (s\<lparr>Playlist := ps\<rparr>) =
           (Response 201 (SongDocument doc), s'\<lparr>Playlist := ps\<rparr>)"
    by (simp add: POST_api_songs_Playlist_irrelevant assms)
  ultimately show ?thesis by simp
qed

theorem addSong_playlistId_unchecked_witness:
  "POST_api_songs (request_env untagged_parse) (Some (WellFormed 7)) (Some track_mp3) one_playlist =
     (Response 201 (SongDocument untagged_song),
      one_playlist\<lparr>files := (files one_playlist)(''uploads/17-5.mp3'' \<mapsto> track_blob),
                   Song := Song one_playlist @ [untagged_song]\<rparr>) \<and>
   POST_api_songs (request_env untagged_parse) (Some (WellFormed 7)) (Some track_mp3)
      (one_playlist\<lparr>Playlist := []\<rparr>) =
     (Response 201 (SongDocument untagged_song),
      one_playlist\<lparr>files := (files one_playlist)(''uploads/17-5.mp3'' \<mapsto> track_blob),
                   Song := Song one_playlist @ [untagged_song], Playlist := []\<rparr>)"
proof -
  have h1: "POST_api_songs (request_env untagged_parse) (Some (WellFormed 7)) (Some track_mp3) one_playlist =
     (Response 201 (SongDocument untagged_song),
      one_playlist\<lparr>files := (files one_playlist)(''uploads/17-5.mp3'' \<mapsto> track_blob),
                   Song := Song one_playlist @ [untagged_song]\<rparr>)"
    by (simp add: untagged_upload one_playlist_def)
  from addSong_playlistId_unchecked[OF h1, of "[]"] h1 show ?thesis by simp
qed

subsection \<open>C4: uploads that are not audio\<close>




subsection \<open>C6: the extractor throws\<close>

text \<open>
  C6. When the upload is accepted and the metadata extractor throws on its bytes, the
  answer is a 500 with the extractor's message, no Song row is inserted, and the blob
  that Multer has stored stays on disk.
\<close>

theorem addSong_extractor_throws:
  assumes "fileFilter upl" and "length (bytes upl) \<le> fileSize_limit"
    and "parse env (bytes upl) = Inl msg"
  shows "fst (POST_api_songs env pid (Some upl) s) = Response 500 (ErrorObject (Message msg)) \<and>
         Song (snd (POST_api_songs env pid (Some upl) s)) = Song s \<and>
         Playlist (snd (POST_api_songs env pid (Some upl) s)) = Playlist s \<and>
         files (snd (POST_api_songs env pid (Some upl) s)) =
           (files s)(stored_path env upl \<mapsto> \<lparr>content = bytes upl, removable = True\<rparr>)"
  by (simp add: POST_api_songs_accepted[OF assms(1,2)] assms(3) with_blob_def)

theorem addSong_extractor_throws_witness:
  "fileFilter track_mp3 \<and> length (bytes track_mp3) \<le> fileSize_limit \<and>
   parse (request_env failing_parse) (bytes track_mp3) = Inl ''Guessed MIME-type not supported'' \<and>
   fst (POST_api_songs (request_env failing_parse) (Some (WellFormed 7)) (Some track_mp3) one_playlist) =
     Response 500 (ErrorObject (Message ''Guessed MIME-type not supported'')) \<and>
   Song (snd (POST_api_songs (request_env failing_parse) (Some (WellFormed 7)) (Some track_mp3) one_playlist)) = [] \<and>
   files (snd (POST_api_songs (request_env failing_parse) (Some (WellFormed 7)) (Some track_mp3) one_playlist))
     ''uploads/17-5.mp3'' = Some track_blob"
proof -
  have h3: "parse (request_env failing_parse) (bytes track_mp3) = Inl ''Guessed MIME-type not supported''"
    by (simp add: request_env_simps failing_parse_def)
  note t = addSong_extractor_throws[OF fileFilter_track_mp3 size_track_mp3 h3,
      of "Some (WellFormed 7)" one_playlist]
  have "Song one_playlist = []" by (simp add: one_playlist_def)
  moreover have "stored_path (request_env failing_parse) track_mp3 = ''uploads/17-5.mp3''"
    by (simp add: stored_path_def storage_filename_track_mp3)
  moreover have "\<lparr>content = bytes track_mp3, removable = True\<rparr> = track_blob"
    by (simp add: track_blob_def track_mp3_simps)
  ultimately show ?thesis using t fileFilter_track_mp3 size_track_mp3 h3 by simp
qed

subsection \<open>C9: a missing or malformed playlistId\<close>

text \<open>
  C9. When the upload is accepted, the extractor succeeds, and the \<^verbatim>\<open>playlistId\<close>
  field is missing or is not an object id, the blob is stored, saving the song fails
  the validation of \<^verbatim>\<open>playlistId\<close>, the answer is a 500, no Song row is inserted,
  and the blob stays on disk.
\<close>

theorem addSong_bad_playlistId:
  assumes "fileFilter upl" and "length (bytes upl) \<le> fileSize_limit"
    and "parse env (bytes upl) = Inr md"
    and "pid = None \<or> pid = Some (Malformed x)"
  shows "(\<exists>paths. fst (POST_api_songs env pid (Some upl) s) =
                    Response 500 (ErrorObject (ValidationError paths)) \<and>
                  ''playlistId'' \<in> set paths) \<and>
         Song (snd (POST_api_songs env pid (Some upl) s)) = Song s \<and>
         Playlist (snd (POST_api_songs env pid (Some upl) s)) = Playlist s \<and>
         files (snd (POST_api_songs env pid (Some upl) s)) =
           (files s)(stored_path env upl \<mapsto> \<lparr>content = bytes upl, removable = True\<rparr>)"
  using assms(4)
  by (auto simp: POST_api_songs_accepted[OF assms(1,2)] assms(3) with_blob_def Song_save_def
      Song_invalid_paths_def)

theorem addSong_bad_playlistId_witness:
  "fileFilter track_mp3 \<and> length (bytes track_mp3) \<le> fileSize_limit \<and>
   parse (request_env untagged_parse) (bytes track_mp3) =
     Inr \<lparr>common_title = None, common_artist = None, format_duration_seconds = None\<rparr> \<and>
   fst (POST_api_songs (request_env untagged_parse) None (Some track_mp3) one_playlist) =
     Response 500 (ErrorObject (ValidationError [''playlistId''])) \<and>
   Song (snd (POST_api_songs (request_env untagged_parse) None (Some track_mp3) one_playlist)) = [] \<and>
   files (snd (POST_api_songs (request_env untagged_parse) None (Some track_mp3) one_playlist))
     ''uploads/17-5.mp3'' = Some track_blob \<and>
   fst (POST_api_songs (request_env untagged_parse) (Some (Malformed ''seven'')) (Some track_mp3) one_playlist) =
     Response 500 (ErrorObject (ValidationError [''playlistId''])) \<and>
   Song (snd (POST_api_songs (request_env untagged_parse) (Some (Malformed ''seven'')) (Some track_mp3)
     one_playlist)) = [] \<and>
   files (snd (POST_api_songs (request_env untagged_parse) (Some (Malformed ''seven'')) (Some track_mp3)
     one_playlist)) ''uploads/17-5.mp3'' = Some track_blob"
proof -
  have h3: "parse (request_env untagged_parse) (bytes track_mp3) =
     Inr \<lparr>common_title = None, common_artist = None, format_duration_seconds = None\<rparr>"
    by (simp add: request_env_simps untagged_parse_def)
  have h4: "(None :: id_string option) = None \<or> None = Some (Malformed ''seven'')" by simp
  have h5: "Some (Malformed ''seven'') = None \<or> Some (Malformed ''seven'') = Some (Malformed ''seven'')"
    by simp
  note t = addSong_bad_playlistId[OF fileFilter_track_mp3 size_track_mp3 h3 h4, of one_playlist]
  note u = addSong_bad_playlistId[OF fileFilter_track_mp3 size_track_mp3 h3 h5, of one_playlist]
  have e: "fst (POST_api_songs (request_env untagged_parse) pid (Some track_mp3) one_playlist) =
     Response 500 (ErrorObject (ValidationError [''playlistId'']))"
    if "pid = None \<or> pid = Some (Malformed ''seven'')" for pid
    using that
    by (auto simp: POST_api_songs_accepted[OF fileFilter_track_mp3 size_track_mp3]
        request_env_simps untagged_parse_def
        Song_save_def Song_invalid_paths_def or_string_def track_mp3_simps)
  have "Song one_playlist = []" by (simp add: one_playlist_def)
  moreover have "stored_path (request_env untagged_parse) track_mp3 = ''uploads/17-5.mp3''"
    by (simp add: stored_path_def storage_filename_track_mp3)
  moreover have "\<lparr>content = bytes track_mp3, removable = True\<rparr> = track_blob"
    by (simp add: track_blob_def track_mp3_simps)
  ultimately show ?thesis using t u e[OF h4] e[OF h5] fileFilter_track_mp3 size_track_mp3 h3 by simp
qed

subsection \<open>C5: errors while the blobs of a playlist are deleted\<close>

text \<open>
  C5 says that an error of a blob's deletion is swallowed and the cascade goes on. The
  loop has no handler of its own: with two songs in playlist 7, the first with a blob
  that cannot be unlinked, the request is answered 500, the blob of the second song
  is still on disk, and no song row is deleted (the playlist row is).
\<close>

theorem deletePlaylist_unlink_error_counterexample:
  "fst (DELETE_api_playlists_id (WellFormed 7) busy_store) =
     Response 500 (ErrorObject (UnlinkError ''uploads/1-1.wav'')) \<and>
   Song (snd (DELETE_api_playlists_id (WellFormed 7) busy_store)) =
     [first_song, other_song, second_song] \<and>
   files (snd (DELETE_api_playlists_id (WellFormed 7) busy_store)) ''uploads/2-2.mp3'' =
     Some track_blob \<and>
   Playlist (snd (DELETE_api_playlists_id (WellFormed 7) busy_store)) = [other_playlist]"
  by (simp add: busy_store_delete busy_store_simps(6)) (simp add: busy_store_def)

text \<open>
  C5, amended. For a playlist that is found, the playlist row is deleted first. A song
  whose blob is not on disk (or that names none) is skipped, and when no blob that
  exists refuses to be unlinked, the answer is 200, the blobs of all songs of the
  playlist are gone and their rows are deleted. An error of \<^verbatim>\<open>fs.unlinkSync\<close> is not
  swallowed: at the first song whose blob cannot be unlinked the cascade stops, the
  answer is 500, only the blobs of the songs before it are gone, no song row is
  deleted, and the playlist row stays deleted.
\<close>

theorem deletePlaylist_cascade:
  assumes "connected s" and "find (\<lambda>q. playlist_id q = oid) (Playlist s) = Some p"
  shows "(list_all (\<lambda>x. \<not> unlink_throws (files s) x) (filter (\<lambda>x. playlistId x = oid) (Song s)) \<longrightarrow>
            fst (DELETE_api_playlists_id (WellFormed oid) s) =
              Response 200 (MessageObject ''Playlist and all songs deleted successfully'') \<and>
            Playlist (snd (DELETE_api_playlists_id (WellFormed oid) s)) = remove1 p (Playlist s) \<and>
            Song (snd (DELETE_api_playlists_id (WellFormed oid) s)) =
              filter (\<lambda>x. playlistId x \<noteq> oid) (Song s) \<and>
            files (snd (DELETE_api_playlists_id (WellFormed oid) s)) =
              without_blobs (filter (\<lambda>x. playlistId x = oid) (Song s)) (files s)) \<and>
         (\<forall>before x after.
            filter (\<lambda>x. playlistId x = oid) (Song s) = before @ x # after \<and>
            list_all (\<lambda>y. \<not> unlink_throws (files s) y) before \<and> unlink_throws (files s) x \<longrightarrow>
            fst (DELETE_api_playlists_id (WellFormed oid) s) =
              Response 500 (ErrorObject (UnlinkError (the (blob_path x)))) \<and>
            Playlist (snd (DELETE_api_playlists_id (WellFormed oid) s)) = remove1 p (Playlist s) \<and>
            Song (snd (DELETE_api_playlists_id (WellFormed oid) s)) = Song s \<and>
            files (snd (DELETE_api_playlists_id (WellFormed oid) s)) =
              without_blobs before (files s))"
  by (auto simp: DELETE_api_playlists_id_found[OF assms] unlink_audio_files_all
      unlink_audio_files_throws_at)

theorem deletePlaylist_cascade_witness:
  "connected missing_blob_store \<and>
   find (\<lambda>q. playlist_id q = 7) (Playlist missing_blob_store) = Some road_trip \<and>
   list_all (\<lambda>x. \<not> unlink_throws (files missing_blob_store) x)
     (filter (\<lambda>x. playlistId x = 7) (Song missing_blob_store)) \<and>
   fst (DELETE_api_playlists_id (WellFormed 7) missing_blob_store) =
     Response 200 (MessageObject ''Playlist and all songs deleted successfully'') \<and>
   Playlist (snd (DELETE_api_playlists_id (WellFormed 7) missing_blob_store)) = [other_playlist] \<and>
   Song (snd (DELETE_api_playlists_id (WellFormed 7) missing_blob_store)) = [other_song] \<and>
   files (snd (DELETE_api_playlists_id (WellFormed 7) missing_blob_store)) ''uploads/2-2.mp3'' = None \<and>
   connected busy_store \<and>
   find (\<lambda>q. playlist_id q = 7) (Playlist busy_store) = Some road_trip \<and>
   filter (\<lambda>x. playlistId x = 7) (Song busy_store) = [] @ first_song # [second_song] \<and>
   unlink_throws (files busy_store) first_song \<and>
   fst (DELETE_api_playlists_id (WellFormed 7) busy_store) =
     Response 500 (ErrorObject (UnlinkError ''uploads/1-1.wav'')) \<and>
   Playlist (snd (DELETE_api_playlists_id (WellFormed 7) busy_store)) = [other_playlist] \<and>
   Song (snd (DELETE_api_playlists_id (WellFormed 7) busy_store)) = Song busy_store \<and>
   files (snd (DELETE_api_playlists_id (WellFormed 7) busy_store)) = files busy_store"
proof -
  note m = deletePlaylist_cascade[OF missing_blob_store_simps(1,2)]
  note b = deletePlaylist_cascade[OF busy_store_simps(1,2)]
  have m1: "list_all (\<lambda>x. \<not> unlink_throws (files missing_blob_store) x)
     (filter (\<lambda>x. playlistId x = 7) (Song missing_blob_store))"
    by (simp only: missing_blob_store_simps(4) missing_blob_store_no_throw)
  from m m1 have m2:
    "fst (DELETE_api_playlists_id (WellFormed 7) missing_blob_store) =
       Response 200 (MessageObject ''Playlist and all songs deleted successfully'')"
    "Playlist (snd (DELETE_api_playlists_id (WellFormed 7) missing_blob_store)) =
       remove1 road_trip (Playlist missing_blob_store)"
    "Song (snd (DELETE_api_playlists_id (WellFormed 7) missing_blob_store)) =
       filter (\<lambda>x. playlistId x \<noteq> 7) (Song missing_blob_store)"
    "files (snd (DELETE_api_playlists_id (WellFormed 7) missing_blob_store)) =
       without_blobs (filter (\<lambda>x. playlistId x = 7) (Song missing_blob_store)) (files missing_blob_store)"
    by blast+
  have m3: "without_blobs (filter (\<lambda>x. playlistId x = 7) (Song missing_blob_store))
      (files missing_blob_store) ''uploads/2-2.mp3'' = None"
    by (simp add: missing_blob_store_simps(4) without_blobs_def blob_path_examples)
  have b1: "filter (\<lambda>x. playlistId x = 7) (Song busy_store) = [] @ first_song # [second_song]"
    by (simp add: busy_store_simps(4))
  have b2: "list_all (\<lambda>y. \<not> unlink_throws (files busy_store) y) []" by simp
  from b b1 b2 busy_store_throw have b3:
    "fst (DELETE_api_playlists_id (WellFormed 7) busy_store) =
       Response 500 (ErrorObject (UnlinkError (the (blob_path first_song))))"
    "Playlist (snd (DELETE_api_playlists_id (WellFormed 7) busy_store)) =
       remove1 road_trip (Playlist busy_store)"
    "Song (snd (DELETE_api_playlists_id (WellFormed 7) busy_store)) = Song busy_store"
    "files (snd (DELETE_api_playlists_id (WellFormed 7) busy_store)) = without_blobs [] (files busy_store)"
    by blast+
  show ?thesis
    using m1 m2 m3 b1 b3 busy_store_throw
    by (simp add: missing_blob_store_simps busy_store_simps blob_path_examples without_blobs_Nil)
qed

subsection \<open>C8: what a playlist deletion removes\<close>

text \<open>
  C8. When the deletion of a playlist answers 200, the identifier is well-formed and
  names a playlist row \<open>p\<close>; afterwards the Playlist collection is the old one without
  \<open>p\<close>, and the Song collection is the old one without the songs whose
  \<^verbatim>\<open>playlistId\<close> is that identifier: every other row is kept, in its place.
\<close>

theorem deletePlaylist_frame:
  assumes "DELETE_api_playlists_id i s = (Response 200 b, s')"
  shows "\<exists>oid p. i = WellFormed oid \<and>
           find (\<lambda>q. playlist_id q = oid) (Playlist s) = Some p \<and>
           Playlist s' = remove1 p (Playlist s) \<and>
           Song s' = filter (\<lambda>x. playlistId x \<noteq> oid) (Song s)"
proof -
  from DELETE_api_playlists_id_200[OF assms] obtain oid p where
    i: "i = WellFormed oid" and c: "connected s"
    and f: "find (\<lambda>q. playlist_id q = oid) (Playlist s) = Some p" by blast
  have "Playlist s' = remove1 p (Playlist s) \<and> Song s' = filter (\<lambda>x. playlistId x \<noteq> oid) (Song s)"
    using assms unfolding i DELETE_api_playlists_id_found[OF c f]
    by (auto split: prod.splits option.splits)
  with i f show ?thesis by blast
qed

theorem deletePlaylist_frame_witness:
  "DELETE_api_playlists_id (WellFormed 7) missing_blob_store =
     (Response 200 (MessageObject ''Playlist and all songs deleted successfully''),
      missing_blob_store\<lparr>Playlist := [other_playlist],
        files := without_blobs [first_song, second_song] (files missing_blob_store),
        Song := [other_song]\<rparr>) \<and>
   Playlist missing_blob_store = [road_trip, other_playlist] \<and>
   Song missing_blob_store = [first_song, other_song, second_song] \<and>
   playlistId other_song = 8"
proof -
  from deletePlaylist_frame[OF missing_blob_store_delete]
  have "\<exists>oid p. WellFormed 7 = WellFormed oid \<and>
      find (\<lambda>q. playlist_id q = oid) (Playlist missing_blob_store) = Some p" by auto
  then show ?thesis
    by (simp add: missing_blob_store_delete) (simp add: missing_blob_store_def other_song_def)
qed

subsection \<open>C7: the list of playlists\<close>

text \<open>
  C7. \<^verbatim>\<open>GET /api/playlists\<close> returns an array whenever the store answers, and an
  array it returns holds all Playlist records, each as often as the collection does, in
  non-increasing order of \<^verbatim>\<open>createdAt\<close>.
\<close>

theorem GET_playlists_newest_first:
  "(connected s \<longrightarrow> (\<exists>ps. GET_api_playlists s = Response 200 (PlaylistArray ps))) \<and>
   (\<forall>ps. GET_api_playlists s = Response 200 (PlaylistArray ps) \<longrightarrow>
      sorted_wrt (\<lambda>a b. createdAt b \<le> createdAt a) ps \<and> mset ps = mset (Playlist s))"
proof -
  have "sorted (map createdAt (sort_key createdAt (Playlist s)))" by (rule sorted_sort_key)
  then have "sorted_wrt (\<lambda>a b. createdAt a \<le> createdAt b) (sort_key createdAt (Playlist s))"
    by (simp add: sorted_map)
  then have "sorted_wrt (\<lambda>a b. createdAt b \<le> createdAt a) (rev (sort_key createdAt (Playlist s)))"
    by (simp add: sorted_wrt_rev)
  then show ?thesis
    by (auto simp: GET_api_playlists_def Playlist_find_sorted_def)
qed

theorem GET_playlists_newest_first_witness:
  "connected missing_blob_store \<and>
   GET_api_playlists missing_blob_store = Response 200 (PlaylistArray [other_playlist, road_trip]) \<and>
   sorted_wrt (\<lambda>a b. createdAt b \<le> createdAt a) [other_playlist, road_trip] \<and>
   mset [other_playlist, road_trip] = mset (Playlist missing_blob_store)"
proof -
  have h: "GET_api_playlists missing_blob_store = Response 200 (PlaylistArray [other_playlist, road_trip])"
    by (simp add: GET_api_playlists_def Playlist_find_sorted_def missing_blob_store_def
        road_trip_def other_playlist_def)
  from GET_playlists_newest_first[of missing_blob_store] h
  have "sorted_wrt (\<lambda>a b. createdAt b \<le> createdAt a) [other_playlist, road_trip] \<and>
   mset [other_playlist, road_trip] = mset (Playlist missing_blob_store)" by blast
  with h missing_blob_store_simps(1) show ?thesis by simp
qed

subsection \<open>C10: a malformed playlist identifier\<close>

text \<open>
  C10. \<^verbatim>\<open>GET /api/playlists/:id\<close> with an identifier that is not an object id is
  answered with a 500 error object (the cast fails), while a well-formed identifier that
  names no playlist is answered 404.
\<close>

theorem GET_playlist_malformed_id:
  "GET_api_playlists_id (Malformed x) s = Response 500 (ErrorObject (CastError ''_id'')) \<and>
   (connected s \<and> find (\<lambda>p. playlist_id p = oid) (Playlist s) = None \<longrightarrow>
      GET_api_playlists_id (WellFormed oid) s =
        Response 404 (ErrorObject (Message ''Playlist not found'')))"
  by (simp add: GET_api_playlists_id_def Playlist_findById_def cast_id_def)

theorem GET_playlist_malformed_id_witness:
  "GET_api_playlists_id (Malformed ''not-an-id'') missing_blob_store =
     Response 500 (ErrorObject (CastError ''_id'')) \<and>
   connected missing_blob_store \<and>
   find (\<lambda>p. playlist_id p = 9) (Playlist missing_blob_store) = None \<and>
   GET_api_playlists_id (WellFormed 9) missing_blob_store =
     Response 404 (ErrorObject (Message ''Playlist not found''))"
  using GET_playlist_malformed_id[of "''not-an-id''" missing_blob_store 9]
    missing_blob_store_simps(1,6)
  by blast

end
